theory Spec2Isabelle
  imports Complex_Main
begin

section \<open>Values of the host language and of the two libraries\<close>

text \<open>
  \<^verbatim>\<open>model.py\<close> declares four pydantic models over pint units. The classes are
  records, the values a caller can pass to a constructor are a datatype, and what the
  field declarations make pydantic (version 2, lax mode) check is written out as
  validators that return either the validated value or the list of line errors.

  Two layers are kept apart. The class statements are modelled first: pydantic builds a
  schema for every annotated field when the class statement runs, and it refuses a
  class it has no schema for (pint's \<^verbatim>\<open>Unit\<close>) unless the configuration allows arbitrary
  types. \<^verbatim>\<open>model.py\<close> sets no \<^verbatim>\<open>model_config\<close>, so the library's default decides; that
  default is a parameter of the model (\<open>cfg\<close>), and \<open>default_config\<close> is the value pydantic
  ships: arbitrary types are not allowed, and importing \<^verbatim>\<open>model.py\<close> raises at
  \<^verbatim>\<open>class Ingredient\<close>. The constructors (\<open>Ingredient_construct\<close> and the others) are the
  validation the declarations describe, which runs only where the class statements went
  through; \<open>model_Ingredient cfg\<close> and the others put the two layers together.

  A pint \<^verbatim>\<open>Unit\<close> is identified with its canonical name, the text \<^verbatim>\<open>str(unit)\<close>
  returns, together with what the registry says about its scale: whether every unit in
  it is multiplicative (grams, teaspoons, the dimensionless unit) or one has an offset or
  a logarithmic scale (degrees Celsius, decibels). \<^verbatim>\<open>ureg.gram\<close> is \<open>Unit ''gram'' True\<close>,
  \<^verbatim>\<open>ureg.dimensionless\<close> is \<open>Unit ''dimensionless'' True\<close> and \<^verbatim>\<open>ureg.degC\<close> is
  \<open>Unit ''degree_Celsius'' False\<close>.
  A Python float is a real number (infinities and NaN are outside the model), a Python
  int is an \<open>int\<close>.
\<close>

datatype Unit = Unit (str_Unit: string) (is_multiplicative: bool)

definition gram :: Unit where "gram = Unit ''gram'' True"
definition kilogram :: Unit where "kilogram = Unit ''kilogram'' True"
definition milliliter :: Unit where "milliliter = Unit ''milliliter'' True"
definition teaspoon :: Unit where "teaspoon = Unit ''teaspoon'' True"
definition tablespoon :: Unit where "tablespoon = Unit ''tablespoon'' True"
definition dimensionless :: Unit where "dimensionless = Unit ''dimensionless'' True"

text \<open>The exceptions other than \<^verbatim>\<open>ValidationError\<close>: pydantic's at a class statement, pint's.\<close>

datatype exception =
    PydanticSchemaGenerationError string
  | OffsetUnitCalculusError



subsection \<open>The model classes\<close>

record Ingredient =
  name :: string
  quantity :: real
  unit :: Unit

record Step =
  order :: int
  description :: string

record InventoryItem = Ingredient +
  inventory_id :: "string option"
  storage_location :: "string option"

record Recipe =
  recipe_id :: "string option"
  name :: string
  description :: "string option"
  ingredients :: "Ingredient list"
  steps :: "Step list"
  prep_time_minutes :: "int option"
  cook_time_minutes :: "int option"

subsection \<open>What a caller can pass\<close>

text \<open>
  The values the tests and the specification pass to the constructors: \<^verbatim>\<open>None\<close>,
  booleans, ints, floats, text, lists, dictionaries with text keys and pint units.
\<close>

datatype pyval =
    PyNone
  | PyBool bool
  | PyInt int
  | PyFloat real
  | PyStr string
  | PyList "pyval list"
  | PyDict "(string \<times> pyval) list"
  | PyUnit Unit

text \<open>Keyword arguments, in the order written; \<open>map_of\<close> looks one up.\<close>

type_synonym kwargs = "(string \<times> pyval) list"

text \<open>
  Three functions of Python and pydantic are parameters of the definitions that call
  them, so that every theorem holds whatever they compute: the parsing of text into a
  float (\<open>float_of_str\<close>) and into an int (\<open>int_of_str\<close>), since pydantic's lax mode
  accepts numeric text for a number field, and \<^verbatim>\<open>str(float)\<close> (\<open>str_float\<close>).
\<close>

text \<open>
  \<^verbatim>\<open>float(n)\<close> for an int: the nearest double, a tie going to the even significand of 53
  bits, and \<^verbatim>\<open>OverflowError\<close> (here \<open>None\<close>) from \<open>2 ^ 1024\<close> on.
\<close>

fun bit_length :: "nat \<Rightarrow> nat" where
  "bit_length n = (if n = 0 then 0 else Suc (bit_length (n div 2)))"

declare bit_length.simps [simp del]

definition float_of_nat :: "nat \<Rightarrow> real option" where
  "float_of_nat n =
     (let e = bit_length n - 53;
          q = n div 2 ^ e;
          r = n mod 2 ^ e;
          q' = (if 2 * r > 2 ^ e \<or> (2 * r = 2 ^ e \<and> odd q) then q + 1 else q);
          m = q' * 2 ^ e
      in if m \<ge> 2 ^ 1024 then None else Some (real m))"

definition float_of_int :: "int \<Rightarrow> real option" where
  "float_of_int i =
     (if i < 0 then map_option uminus (float_of_nat (nat (- i))) else float_of_nat (nat i))"

section \<open>Validation\<close>

subsection \<open>Errors\<close>

text \<open>
  A \<^verbatim>\<open>ValidationError\<close> carries one line error per violated constraint: where it is (the
  field) and which constraint failed, under pydantic's own names. The model keeps these
  two parts and leaves the message text out.
\<close>

datatype error_type =
    missing
  | string_type
  | float_type
  | float_parsing
  | int_type
  | int_parsing
  | int_parsing_size
  | int_from_float
  | greater_than
  | greater_than_equal
  | is_instance_of

datatype loc_item = Key string | Index nat

type_synonym line_error = "loc_item list \<times> error_type"

datatype error = ValidationError (errors: "line_error list")

type_synonym 'a validated = "line_error list + 'a"

definition fail :: "error_type \<Rightarrow> 'a validated" where
  "fail t = Inl [([], t)]"

text \<open>A validator that ran below a field: its errors get that prefix.\<close>

definition at_loc :: "loc_item \<Rightarrow> 'a validated \<Rightarrow> 'a validated" where
  "at_loc l r = (case r of Inl es \<Rightarrow> Inl (map (\<lambda>(p, t). (l # p, t)) es) | Inr x \<Rightarrow> Inr x)"

text \<open>The constraint of a field is checked on the value its type validator produced.\<close>

definition and_then :: "'a validated \<Rightarrow> ('a \<Rightarrow> 'b validated) \<Rightarrow> 'b validated" where
  "and_then r f = (case r of Inl es \<Rightarrow> Inl es | Inr x \<Rightarrow> f x)"

text \<open>
  pydantic validates every field and reports all the errors, in the order of the
  fields; an instance is built only when there is none.
\<close>

fun both :: "'a validated \<Rightarrow> 'b validated \<Rightarrow> ('a \<times> 'b) validated" where
  "both (Inr a) (Inr b) = Inr (a, b)"
| "both (Inl es) (Inr b) = Inl es"
| "both (Inr a) (Inl es) = Inl es"
| "both (Inl es) (Inl es') = Inl (es @ es')"

subsection \<open>Type validators (lax mode)\<close>

definition str_validator :: "pyval \<Rightarrow> string validated" where
  "str_validator v = (case v of PyStr s \<Rightarrow> Inr s | _ \<Rightarrow> fail string_type)"

text \<open>An int given for a float field is converted with \<^verbatim>\<open>float(n)\<close>.\<close>

definition float_validator :: "(string \<Rightarrow> real option) \<Rightarrow> pyval \<Rightarrow> real validated" where
  "float_validator float_of_str v =
     (case v of
        PyFloat x \<Rightarrow> Inr x
      | PyInt n \<Rightarrow> (case float_of_int n of Some x \<Rightarrow> Inr x | None \<Rightarrow> fail float_type)
      | PyBool b \<Rightarrow> Inr (if b then 1 else 0)
      | PyStr s \<Rightarrow> (case float_of_str s of Some x \<Rightarrow> Inr x | None \<Rightarrow> fail float_parsing)
      | _ \<Rightarrow> fail float_type)"

text \<open>
  A float given for an int field must have no fractional part and lie strictly between
  \<open>- 2 ^ 63\<close> and \<open>2 ^ 63\<close>.
\<close>

definition int_validator :: "(string \<Rightarrow> int option) \<Rightarrow> pyval \<Rightarrow> int validated" where
  "int_validator int_of_str v =
     (case v of
        PyInt n \<Rightarrow> Inr n
      | PyBool b \<Rightarrow> Inr (if b then 1 else 0)
      | PyFloat x \<Rightarrow>
          (if x \<noteq> of_int \<lfloor>x\<rfloor> then fail int_from_float
           else if - (2 ^ 63) < x \<and> x < 2 ^ 63 then Inr \<lfloor>x\<rfloor>
           else fail int_parsing_size)
      | PyStr s \<Rightarrow> (case int_of_str s of Some n \<Rightarrow> Inr n | None \<Rightarrow> fail int_parsing)
      | _ \<Rightarrow> fail int_type)"

text \<open>
  \<^verbatim>\<open>unit: Unit\<close>. Where the configuration allows arbitrary types, the schema of a class
  pydantic knows nothing about is an \<^verbatim>\<open>isinstance\<close> check. Where it does not, there is no
  schema and no class: see \<open>generate_schema\<close> below.
\<close>

definition Unit_validator :: "pyval \<Rightarrow> Unit validated" where
  "Unit_validator v = (case v of PyUnit u \<Rightarrow> Inr u | _ \<Rightarrow> fail is_instance_of)"

text \<open>\<^verbatim>\<open>Optional[T]\<close>: \<^verbatim>\<open>None\<close> is accepted as it is, anything else goes to \<open>T\<close>.\<close>

definition optional :: "(pyval \<Rightarrow> 'a validated) \<Rightarrow> pyval \<Rightarrow> 'a option validated" where
  "optional val v = (case v of PyNone \<Rightarrow> Inr None | _ \<Rightarrow> and_then (val v) (\<lambda>x. Inr (Some x)))"

subsection \<open>Constraints: \<^verbatim>\<open>gt\<close> and \<^verbatim>\<open>ge\<close>\<close>

definition gt :: "real \<Rightarrow> real \<Rightarrow> real validated" where
  "gt bound x = (if x > bound then Inr x else fail greater_than)"

definition ge :: "int \<Rightarrow> int \<Rightarrow> int validated" where
  "ge bound n = (if n \<ge> bound then Inr n else fail greater_than_equal)"

subsection \<open>Fields\<close>

text \<open>\<^verbatim>\<open>Field(...)\<close>: the field is required; a keyword that is not given is a line error.\<close>

definition required :: "kwargs \<Rightarrow> string \<Rightarrow> (pyval \<Rightarrow> 'a validated) \<Rightarrow> 'a validated" where
  "required kw f val =
     (case map_of kw f of
        None \<Rightarrow> Inl [([Key f], missing)]
      | Some v \<Rightarrow> at_loc (Key f) (val v))"

text \<open>\<^verbatim>\<open>Field(None)\<close>: a keyword that is not given takes the default, which is not validated.\<close>

definition with_default :: "kwargs \<Rightarrow> string \<Rightarrow> 'a \<Rightarrow> (pyval \<Rightarrow> 'a validated) \<Rightarrow> 'a validated" where
  "with_default kw f d val =
     (case map_of kw f of
        None \<Rightarrow> Inr d
      | Some v \<Rightarrow> at_loc (Key f) (val v))"

text \<open>The constructor raises the collected line errors as one \<^verbatim>\<open>ValidationError\<close>.\<close>

definition raise_errors :: "'a validated \<Rightarrow> error + 'a" where
  "raise_errors r = (case r of Inl es \<Rightarrow> Inl (ValidationError es) | Inr x \<Rightarrow> Inr x)"

section \<open>The models\<close>

subsection \<open>Ingredient\<close>

text \<open>
  \<^verbatim>\<open>name: str = Field(...)\<close>, \<^verbatim>\<open>quantity: float = Field(..., gt=0)\<close>,
  \<^verbatim>\<open>unit: Unit = Field(...)\<close>. Keywords that name no field are ignored.
\<close>

definition Ingredient_fields :: "(string \<Rightarrow> real option) \<Rightarrow> kwargs \<Rightarrow> (string \<times> real \<times> Unit) validated" where
  "Ingredient_fields float_of_str kw =
     both (required kw ''name'' str_validator)
       (both (required kw ''quantity'' (\<lambda>v. and_then (float_validator float_of_str v) (gt 0)))
             (required kw ''unit'' Unit_validator))"

definition Ingredient_validate :: "(string \<Rightarrow> real option) \<Rightarrow> kwargs \<Rightarrow> Ingredient validated" where
  "Ingredient_validate float_of_str kw =
     and_then (Ingredient_fields float_of_str kw)
       (\<lambda>(n, q, u). Inr \<lparr>Ingredient.name = n, quantity = q, unit = u\<rparr>)"

definition Ingredient_construct :: "(string \<Rightarrow> real option) \<Rightarrow> kwargs \<Rightarrow> error + Ingredient" where
  "Ingredient_construct float_of_str kw = raise_errors (Ingredient_validate float_of_str kw)"

text \<open>
  \<^verbatim>\<open>__str__\<close>. The field holds a \<^verbatim>\<open>Unit\<close>, not a \<^verbatim>\<open>Quantity\<close>, so \<^verbatim>\<open>unit_str\<close> is
  \<^verbatim>\<open>str(self.unit)\<close>; the result is the one f-string of the source, whatever the unit.
\<close>

definition Ingredient_str :: "(real \<Rightarrow> string) \<Rightarrow> 'a Ingredient_scheme \<Rightarrow> string" where
  "Ingredient_str str_float self =
     (let unit_str = str_Unit (unit self)
      in str_float (quantity self) @ '' '' @ unit_str @ '' of '' @ Ingredient.name self)"


subsection \<open>Step\<close>

text \<open>\<^verbatim>\<open>order: int = Field(..., ge=1)\<close>, \<^verbatim>\<open>description: str = Field(...)\<close>.\<close>

definition Step_validate :: "(string \<Rightarrow> int option) \<Rightarrow> kwargs \<Rightarrow> Step validated" where
  "Step_validate int_of_str kw =
     and_then
       (both (required kw ''order'' (\<lambda>v. and_then (int_validator int_of_str v) (ge 1)))
             (required kw ''description'' str_validator))
       (\<lambda>(n, d). Inr \<lparr>order = n, Step.description = d\<rparr>)"

definition Step_construct :: "(string \<Rightarrow> int option) \<Rightarrow> kwargs \<Rightarrow> error + Step" where
  "Step_construct int_of_str kw = raise_errors (Step_validate int_of_str kw)"

subsection \<open>InventoryItem\<close>

text \<open>
  The subclass inherits the three fields with their constraints and adds
  \<^verbatim>\<open>inventory_id: Optional[str] = Field(None)\<close> and
  \<^verbatim>\<open>storage_location: Optional[str] = Field(None)\<close>.
\<close>

definition InventoryItem_validate :: "(string \<Rightarrow> real option) \<Rightarrow> kwargs \<Rightarrow> InventoryItem validated" where
  "InventoryItem_validate float_of_str kw =
     and_then
       (both (Ingredient_fields float_of_str kw)
          (both (with_default kw ''inventory_id'' None (optional str_validator))
                (with_default kw ''storage_location'' None (optional str_validator))))
       (\<lambda>((n, q, u), i, l).
          Inr \<lparr>Ingredient.name = n, quantity = q, unit = u,
               inventory_id = i, storage_location = l\<rparr>)"

definition InventoryItem_construct :: "(string \<Rightarrow> real option) \<Rightarrow> kwargs \<Rightarrow> error + InventoryItem" where
  "InventoryItem_construct float_of_str kw = raise_errors (InventoryItem_validate float_of_str kw)"

subsection \<open>Recipe\<close>


definition get_total_time :: "Recipe \<Rightarrow> int" where
  "get_total_time self =
     (let prep = (if prep_time_minutes self \<noteq> None then the (prep_time_minutes self) else 0);
          cook = (if cook_time_minutes self \<noteq> None then the (cook_time_minutes self) else 0)
      in prep + cook)"

section \<open>The class statements\<close>

text \<open>
  The annotations of the fields, as the four class bodies write them. \<open>Ann_model\<close> is
  another model of the module, \<open>Ann_class\<close> a class pydantic has no schema for.
\<close>

datatype annotation =
    Ann_str
  | Ann_float
  | Ann_int
  | Ann_Optional annotation
  | Ann_List annotation
  | Ann_model string
  | Ann_class string

definition Ingredient_annotations :: "(string \<times> annotation) list" where
  "Ingredient_annotations =
     [(''name'', Ann_str), (''quantity'', Ann_float), (''unit'', Ann_class ''Unit'')]"

definition Step_annotations :: "(string \<times> annotation) list" where
  "Step_annotations = [(''order'', Ann_int), (''description'', Ann_str)]"

definition Recipe_annotations :: "(string \<times> annotation) list" where
  "Recipe_annotations =
     [(''recipe_id'', Ann_Optional Ann_str), (''name'', Ann_str),
      (''description'', Ann_Optional Ann_str),
      (''ingredients'', Ann_List (Ann_model ''Ingredient'')),
      (''steps'', Ann_List (Ann_model ''Step'')),
      (''prep_time_minutes'', Ann_Optional Ann_int),
      (''cook_time_minutes'', Ann_Optional Ann_int)]"

definition InventoryItem_annotations :: "(string \<times> annotation) list" where
  "InventoryItem_annotations =
     Ingredient_annotations
     @ [(''inventory_id'', Ann_Optional Ann_str), (''storage_location'', Ann_Optional Ann_str)]"

text \<open>
  The part of a model's configuration that the class statements read. No class of
  \<^verbatim>\<open>model.py\<close> sets \<^verbatim>\<open>model_config\<close>, so each takes the library's default, and pydantic's
  default does not allow arbitrary types.
\<close>

record ConfigDict =
  arbitrary_types_allowed :: bool

definition default_config :: ConfigDict where
  "default_config = \<lparr>arbitrary_types_allowed = False\<rparr>"

text \<open>
  The schema of an annotation: none is needed from the caller for the built-in types and
  the models; for any other class there is one only where arbitrary types are allowed,
  and \<^verbatim>\<open>PydanticSchemaGenerationError\<close> is raised otherwise.
\<close>

fun generate_schema :: "ConfigDict \<Rightarrow> annotation \<Rightarrow> exception option" where
  "generate_schema cfg (Ann_class c) =
     (if arbitrary_types_allowed cfg then None else Some (PydanticSchemaGenerationError c))"
| "generate_schema cfg (Ann_Optional a) = generate_schema cfg a"
| "generate_schema cfg (Ann_List a) = generate_schema cfg a"
| "generate_schema cfg a = None"

text \<open>A class statement builds the schema of each field in turn; the first failure is raised.\<close>

fun class_statement :: "ConfigDict \<Rightarrow> (string \<times> annotation) list \<Rightarrow> exception option" where
  "class_statement cfg [] = None"
| "class_statement cfg ((f, a) # rest) =
     (case generate_schema cfg a of
        Some e \<Rightarrow> Some e
      | None \<Rightarrow> class_statement cfg rest)"

text \<open>Importing \<^verbatim>\<open>model.py\<close> runs the four class statements in the order of the file.\<close>

definition import_model :: "ConfigDict \<Rightarrow> exception option" where
  "import_model cfg =
     (case class_statement cfg Ingredient_annotations of Some e \<Rightarrow> Some e | None \<Rightarrow>
      case class_statement cfg Step_annotations of Some e \<Rightarrow> Some e | None \<Rightarrow>
      case class_statement cfg Recipe_annotations of Some e \<Rightarrow> Some e | None \<Rightarrow>
      class_statement cfg InventoryItem_annotations)"

text \<open>
  What a caller gets, as the tests do it: \<^verbatim>\<open>from model import Ingredient\<close>, then the call.
  The exception of the import comes first; after an import that went through, the
  result is the constructor's.
\<close>

definition after_import :: "ConfigDict \<Rightarrow> 'a \<Rightarrow> exception + 'a" where
  "after_import cfg result = (case import_model cfg of Some e \<Rightarrow> Inl e | None \<Rightarrow> Inr result)"

definition model_Ingredient ::
  "ConfigDict \<Rightarrow> (string \<Rightarrow> real option) \<Rightarrow> kwargs \<Rightarrow> exception + (error + Ingredient)" where
  "model_Ingredient cfg float_of_str kw = after_import cfg (Ingredient_construct float_of_str kw)"

definition model_InventoryItem ::
  "ConfigDict \<Rightarrow> (string \<Rightarrow> real option) \<Rightarrow> kwargs \<Rightarrow> exception + (error + InventoryItem)" where
  "model_InventoryItem cfg float_of_str kw =
     after_import cfg (InventoryItem_construct float_of_str kw)"


subsection \<open>Reading a validation result\<close>


section \<open>Properties of the validators and of the import\<close>

lemmas validator_defs =
  required_def with_default_def at_loc_def and_then_def raise_errors_def fail_def
  str_validator_def float_validator_def int_validator_def Unit_validator_def optional_def
  gt_def ge_def

lemmas construct_defs =
  Ingredient_construct_def Ingredient_validate_def Ingredient_fields_def
  InventoryItem_construct_def InventoryItem_validate_def
  Step_construct_def Step_validate_def

lemma import_model_result:
  "import_model cfg =
     (if arbitrary_types_allowed cfg then None else Some (PydanticSchemaGenerationError ''Unit''))"
  by (simp add: import_model_def Ingredient_annotations_def Step_annotations_def
      Recipe_annotations_def InventoryItem_annotations_def)

lemma import_model_as_shipped:
  "import_model default_config = Some (PydanticSchemaGenerationError ''Unit'')"
  by (simp add: import_model_result default_config_def)









section \<open>The claims\<close>

text \<open>
  Claim C1. \<^verbatim>\<open>__str__\<close> does not leave the unit out for the dimensionless unit: for
  \<^verbatim>\<open>Ingredient(name="Eggs", quantity=3.0, unit=ureg.dimensionless)\<close> it returns the
  quantity followed by \<^verbatim>\<open>" dimensionless of Eggs"\<close>, and whatever the unit's name and the
  text of the float are, the result is not the quantity followed by \<^verbatim>\<open>" Eggs"\<close>, which
  is what \<^verbatim>\<open>test_ingredient_str_representation\<close> expects (\<^verbatim>\<open>"3.0 Eggs"\<close>). The other
  half of the claim holds: for teaspoons of salt the result is the quantity followed by
  \<^verbatim>\<open>" teaspoon of Salt"\<close>.
\<close>

theorem render_keeps_dimensionless_unit:
  "Ingredient_str str_float \<lparr>Ingredient.name = ''Eggs'', quantity = 3, unit = dimensionless\<rparr>
     = str_float 3 @ '' dimensionless of Eggs''
   \<and> Ingredient_str str_float \<lparr>Ingredient.name = ''Eggs'', quantity = 3, unit = u\<rparr>
     \<noteq> str_float 3 @ '' Eggs''
   \<and> Ingredient_str str_float \<lparr>Ingredient.name = ''Salt'', quantity = 1 / 2, unit = teaspoon\<rparr>
     = str_float (1 / 2) @ '' teaspoon of Salt''"
proof -
  have "length (str_Unit u @ '' of Eggs'') \<noteq> length ''Eggs''"
    by simp
  then have "str_Unit u @ '' of Eggs'' \<noteq> ''Eggs''"
    by metis
  then show ?thesis
    by (simp add: Ingredient_str_def dimensionless_def teaspoon_def)
qed

text \<open>
  Claim C2. An empty name is not rejected: \<^verbatim>\<open>Ingredient(name="", quantity=1.0,
  unit=ureg.gram)\<close> is constructed, with the empty name, where
  \<^verbatim>\<open>test_create_ingredient_invalid_name_type\<close> expects a \<^verbatim>\<open>ValidationError\<close>. This is
  the validation the class declares: the declaration of \<^verbatim>\<open>name\<close> has no check of
  emptiness, whatever the configuration.
\<close>

theorem empty_name_constructed:
  "Ingredient_construct float_of_str
     [(''name'', PyStr []), (''quantity'', PyFloat 1), (''unit'', PyUnit gram)]
   = Inr \<lparr>Ingredient.name = [], quantity = 1, unit = gram\<rparr>"
  by (simp add: construct_defs validator_defs)

text \<open>
  Claim C3. With the library's default configuration the check of the quantity is never
  reached: for \<^verbatim>\<open>Ingredient(name="Test", quantity=0.0, unit=ureg.gram)\<close>, as
  \<^verbatim>\<open>test_create_ingredient_invalid_quantity\<close> calls it, and for the same call of
  \<^verbatim>\<open>InventoryItem\<close>, the import of \<^verbatim>\<open>model.py\<close> raises \<^verbatim>\<open>PydanticSchemaGenerationError\<close> for
  the class \<^verbatim>\<open>Unit\<close>, where the test expects a \<^verbatim>\<open>ValidationError\<close> that says
  \<^verbatim>\<open>greater than 0\<close>. Where arbitrary types are allowed, the two calls raise that
  \<^verbatim>\<open>ValidationError\<close>: one line error, \<^verbatim>\<open>greater_than\<close> at \<^verbatim>\<open>quantity\<close>.
\<close>

theorem quantity_check_not_reached:
  "model_Ingredient default_config float_of_str
     [(''name'', PyStr ''Test''), (''quantity'', PyFloat 0), (''unit'', PyUnit gram)]
     = Inl (PydanticSchemaGenerationError ''Unit'')
   \<and> model_InventoryItem default_config float_of_str
       [(''name'', PyStr ''Test''), (''quantity'', PyFloat 0), (''unit'', PyUnit gram)]
     = Inl (PydanticSchemaGenerationError ''Unit'')
   \<and> model_Ingredient \<lparr>arbitrary_types_allowed = True\<rparr> float_of_str
       [(''name'', PyStr ''Test''), (''quantity'', PyFloat 0), (''unit'', PyUnit gram)]
     = Inr (Inl (ValidationError [([Key ''quantity''], greater_than)]))
   \<and> model_InventoryItem \<lparr>arbitrary_types_allowed = True\<rparr> float_of_str
       [(''name'', PyStr ''Test''), (''quantity'', PyFloat 0), (''unit'', PyUnit gram)]
     = Inr (Inl (ValidationError [([Key ''quantity''], greater_than)]))"
  by (simp add: model_Ingredient_def model_InventoryItem_def after_import_def
      import_model_result default_config_def construct_defs validator_defs)

text \<open>
  Claim C4. With the library's default configuration the check of the unit is never
  reached: for \<^verbatim>\<open>Ingredient(name="Test", quantity=1.0, unit="gram")\<close>, as
  \<^verbatim>\<open>test_create_ingredient_invalid_unit_type\<close> calls it, the import of \<^verbatim>\<open>model.py\<close> raises
  \<^verbatim>\<open>PydanticSchemaGenerationError\<close> for the class \<^verbatim>\<open>Unit\<close>, where the test expects a
  \<^verbatim>\<open>ValidationError\<close>. Where arbitrary types are allowed, the call raises the
  \<^verbatim>\<open>ValidationError\<close> with the one line error \<^verbatim>\<open>is_instance_of\<close> at \<^verbatim>\<open>unit\<close>.
\<close>

theorem unit_check_not_reached:
  "model_Ingredient default_config float_of_str
     [(''name'', PyStr ''Test''), (''quantity'', PyFloat 1), (''unit'', PyStr ''gram'')]
     = Inl (PydanticSchemaGenerationError ''Unit'')
   \<and> model_Ingredient \<lparr>arbitrary_types_allowed = True\<rparr> float_of_str
       [(''name'', PyStr ''Test''), (''quantity'', PyFloat 1), (''unit'', PyStr ''gram'')]
     = Inr (Inl (ValidationError [([Key ''unit''], is_instance_of)]))"
  by (simp add: model_Ingredient_def after_import_def import_model_result default_config_def
      construct_defs validator_defs)







text \<open>
  Claim C7. \<^verbatim>\<open>get_total_time\<close> returns the sum of the two times, each counted as 0 when it
  is \<^verbatim>\<open>None\<close>: 0 when both are \<^verbatim>\<open>None\<close>, 10 for 10 and \<^verbatim>\<open>None\<close>, 30 for 10 and 20.
\<close>

theorem get_total_time_sum:
  "get_total_time r =
      (case prep_time_minutes r of None \<Rightarrow> 0 | Some p \<Rightarrow> p)
    + (case cook_time_minutes r of None \<Rightarrow> 0 | Some c \<Rightarrow> c)
   \<and> get_total_time (r\<lparr>prep_time_minutes := None, cook_time_minutes := None\<rparr>) = 0
   \<and> get_total_time (r\<lparr>prep_time_minutes := Some 10, cook_time_minutes := None\<rparr>) = 10
   \<and> get_total_time (r\<lparr>prep_time_minutes := Some 10, cook_time_minutes := Some 20\<rparr>) = 30"
  by (simp add: get_total_time_def split: option.splits)

theorem get_total_time_sum_witness:
  "get_total_time
     \<lparr>recipe_id = None, Recipe.name = ''Omelette'', Recipe.description = None,
      ingredients = [\<lparr>Ingredient.name = ''Eggs'', quantity = 3, unit = dimensionless\<rparr>],
      steps = [\<lparr>order = 1, Step.description = ''Whisk''\<rparr>],
      prep_time_minutes = Some 10, cook_time_minutes = Some 20\<rparr> = 30"
  using get_total_time_sum
    [of "\<lparr>recipe_id = None, Recipe.name = ''Omelette'', Recipe.description = None,
        ingredients = [\<lparr>Ingredient.name = ''Eggs'', quantity = 3, unit = dimensionless\<rparr>],
        steps = [\<lparr>order = 1, Step.description = ''Whisk''\<rparr>],
        prep_time_minutes = Some 10, cook_time_minutes = Some 20\<rparr>"]
  by simp






end
